theory Spec2Isabelle
  imports Main
begin

section \<open>Data model of the general-ledger service\<close>

text \<open>
  The embedding follows \<^verbatim>\<open>models/journal_entries.py\<close>, \<^verbatim>\<open>models/chart_of_accounts.py\<close>,
  \<^verbatim>\<open>services/journal_service.py\<close> and \<^verbatim>\<open>services/gl_service.py\<close> of the general-ledger
  service, and \<^verbatim>\<open>generate_aging_report\<close> of the accounts-receivable service.

  \<^item> A \<^verbatim>\<open>Numeric(15, 2)\<close> amount is an integer number of hundredths; sums of such amounts
    are exact, as sums of \<^verbatim>\<open>Decimal\<close> values of scale 2 are.
  \<^item> A \<^verbatim>\<open>date\<close> is its proleptic ordinal, so that the difference of two dates is their
    number of days.
  \<^item> A \<^verbatim>\<open>datetime\<close> is its year together with the position inside that year.
    Every operation that reads \<^verbatim>\<open>datetime.utcnow()\<close> takes the reading as the
    parameter \<open>now\<close>.
  \<^item> Status, entry type and normal balance are strings, as the columns are.
  \<^item> The database session is the record \<open>db\<close> of the two tables; rows are kept in
    insertion order. A raised exception is a value \<open>Inl e\<close>; the \<^verbatim>\<open>db.rollback()\<close>
    of every handler means that the caller keeps the database it passed in.
  \<^item> The rows of \<^verbatim>\<open>journal_lines\<close> are held by their entry, as the relationship
    \<^verbatim>\<open>JournalEntry.journal_lines\<close> presents them; the surrogate key and the two
    timestamps of a line row are left out.
\<close>

type_synonym decimal = int
type_synonym date = int

record datetime =
  year :: nat
  within_year :: nat

record journal_line_create =
  account_id :: int
  line_number :: int
  line_description :: "string option"
  debit_amount :: decimal
  credit_amount :: decimal

record journal_entry =
  entry_id :: int
  entry_number :: string
  entry_date :: date
  reference :: "string option"
  description :: string
  status :: string
  entry_type :: string
  total_debits :: decimal
  total_credits :: decimal
  is_balanced :: bool
  posted_at :: "datetime option"
  posted_by :: "int option"
  created_at :: datetime
  updated_at :: datetime
  created_by :: "int option"
  updated_by :: "int option"
  journal_lines :: "journal_line_create list"

text \<open>\<^verbatim>\<open>JournalEntryCreate\<close>: the request body of a creation.\<close>

record journal_entry_create =
  new_entry_date :: date
  new_reference :: "string option"
  new_description :: string
  new_entry_type :: string
  new_journal_lines :: "journal_line_create list"

text \<open>
  \<^verbatim>\<open>JournalEntryUpdate\<close> read through \<^verbatim>\<open>dict(exclude_unset=True)\<close>: \<open>None\<close> is a field
  the caller did not supply. The nullable \<^verbatim>\<open>reference\<close> may be supplied as null, hence
  the nested option. A null supplied for a \<^verbatim>\<open>NOT NULL\<close> column is refused by the storage
  layer and is not an input of this model.
\<close>

record journal_entry_update =
  upd_entry_date :: "date option"
  upd_reference :: "string option option"
  upd_description :: "string option"
  upd_entry_type :: "string option"
  upd_journal_lines :: "journal_line_create list option"

record account =
  acct_id :: int
  account_code :: string
  account_name :: string
  account_type :: string
  account_category :: string
  parent_account_id :: "int option"
  account_description :: "string option"
  is_active :: bool
  is_system_account :: bool
  normal_balance :: string
  acct_created_at :: datetime
  acct_updated_at :: datetime

record db =
  chart_of_accounts :: "account list"
  journal_entries :: "journal_entry list"

text \<open>
  Every \<^verbatim>\<open>ValueError\<close> of the services is told apart by its message; each message is one
  constructor, carrying the values the message prints. \<open>IntegrityError\<close> is the storage
  layer refusing a second row with the same \<^verbatim>\<open>entry_number\<close> (\<^verbatim>\<open>unique=True\<close>).
\<close>

datatype error =
    Unbalanced decimal decimal
  | InvalidAccount int
  | NotFound int
  | ImmutablePosted
  | AlreadyPosted int
  | CannotPostVoid int
  | PostUnbalanced int
  | CannotVoidPosted int
  | AlreadyVoid int
  | NotPosted int
  | IntegrityError
  | DuplicateCode string
  | ParentNotFound int
  | HasActiveChildren nat
  | AccountNotFound int

section \<open>Entry numbers\<close>

text \<open>
  \<^verbatim>\<open>f"JE-{current_year}-{count + 1:05d}"\<close>: the decimal digits of the year, and the decimal
  digits of the sequence number padded with zeros on the left to at least five characters.
\<close>

definition digit_char :: "nat \<Rightarrow> char" where
  "digit_char d = char_of (48 + d)"

fun string_of_nat :: "nat \<Rightarrow> string" where
  "string_of_nat n =
     (if n < 10 then [digit_char n] else string_of_nat (n div 10) @ [digit_char (n mod 10)])"

declare string_of_nat.simps [simp del]

definition zfill :: "nat \<Rightarrow> string \<Rightarrow> string" where
  "zfill w s = replicate (w - length s) (CHR ''0'') @ s"

definition format_entry_number :: "nat \<Rightarrow> nat \<Rightarrow> string" where
  "format_entry_number y n = ''JE-'' @ string_of_nat y @ ''-'' @ zfill 5 (string_of_nat n)"

definition count_year :: "journal_entry list \<Rightarrow> nat \<Rightarrow> nat" where
  "count_year es y = length (filter (\<lambda>e. year (created_at e) = y) es)"

definition generate_entry_number :: "db \<Rightarrow> datetime \<Rightarrow> string" where
  "generate_entry_number d now =
     (let current_year = year now;
          count = count_year (journal_entries d) current_year
      in format_entry_number current_year (count + 1))"

section \<open>Journal service\<close>

definition find_active_account :: "db \<Rightarrow> int \<Rightarrow> account option" where
  "find_active_account d i = find (\<lambda>a. acct_id a = i \<and> is_active a) (chart_of_accounts d)"

text \<open>The loop over the lines: the first line whose account is missing or inactive raises.\<close>

fun validate_lines :: "db \<Rightarrow> journal_line_create list \<Rightarrow> error + unit" where
  "validate_lines d [] = Inr ()"
| "validate_lines d (l # ls) =
     (case find_active_account d (account_id l) of
        None \<Rightarrow> Inl (InvalidAccount (account_id l))
      | Some a \<Rightarrow> validate_lines d ls)"

fun max_entry_id :: "journal_entry list \<Rightarrow> int" where
  "max_entry_id [] = 0"
| "max_entry_id (e # es) = max (entry_id e) (max_entry_id es)"

definition get_journal_entry :: "db \<Rightarrow> int \<Rightarrow> journal_entry option" where
  "get_journal_entry d i = find (\<lambda>e. entry_id e = i) (journal_entries d)"

definition create_journal_entry ::
  "db \<Rightarrow> datetime \<Rightarrow> journal_entry_create \<Rightarrow> error + (db \<times> journal_entry)" where
  "create_journal_entry d now entry =
     (let number = generate_entry_number d now;
          debits = sum_list (map debit_amount (new_journal_lines entry));
          credits = sum_list (map credit_amount (new_journal_lines entry));
          balanced = (debits = credits)
      in if \<not> balanced then Inl (Unbalanced debits credits)
         else let db_entry = \<lparr>
                entry_id = max_entry_id (journal_entries d) + 1,
                entry_number = number,
                entry_date = new_entry_date entry,
                reference = new_reference entry,
                description = new_description entry,
                status = ''Draft'',
                entry_type = new_entry_type entry,
                total_debits = debits,
                total_credits = credits,
                is_balanced = balanced,
                posted_at = None,
                posted_by = None,
                created_at = now,
                updated_at = now,
                created_by = None,
                updated_by = None,
                journal_lines = new_journal_lines entry \<rparr>
           in if number \<in> set (map entry_number (journal_entries d)) then Inl IntegrityError
              else case validate_lines d (new_journal_lines entry) of
                     Inl e \<Rightarrow> Inl e
                   | Inr u \<Rightarrow> Inr (d\<lparr>journal_entries := journal_entries d @ [db_entry]\<rparr>, db_entry))"

text \<open>
  The update loop validates each new line and accumulates the two totals, starting from
  \<^verbatim>\<open>Decimal("0")\<close>; it raises at the first line whose account is missing or inactive.
\<close>

fun add_lines ::
  "db \<Rightarrow> journal_line_create list \<Rightarrow> decimal \<Rightarrow> decimal \<Rightarrow> error + (decimal \<times> decimal)" where
  "add_lines d [] debits credits = Inr (debits, credits)"
| "add_lines d (l # ls) debits credits =
     (case find_active_account d (account_id l) of
        None \<Rightarrow> Inl (InvalidAccount (account_id l))
      | Some a \<Rightarrow> add_lines d ls (debits + debit_amount l) (credits + credit_amount l))"

text \<open>Writing a loaded row back: the row with the same primary key is replaced.\<close>

definition store_entry :: "journal_entry \<Rightarrow> db \<Rightarrow> db" where
  "store_entry e d =
     d\<lparr>journal_entries := map (\<lambda>x. if entry_id x = entry_id e then e else x) (journal_entries d)\<rparr>"

text \<open>The \<^verbatim>\<open>setattr\<close> loop over the supplied fields other than \<^verbatim>\<open>journal_lines\<close>.\<close>

definition set_fields :: "journal_entry_update \<Rightarrow> journal_entry \<Rightarrow> journal_entry" where
  "set_fields upd e =
     (let e1 = (case upd_entry_date upd of None \<Rightarrow> e | Some v \<Rightarrow> e\<lparr>entry_date := v\<rparr>);
          e2 = (case upd_reference upd of None \<Rightarrow> e1 | Some v \<Rightarrow> e1\<lparr>reference := v\<rparr>);
          e3 = (case upd_description upd of None \<Rightarrow> e2 | Some v \<Rightarrow> e2\<lparr>description := v\<rparr>);
          e4 = (case upd_entry_type upd of None \<Rightarrow> e3 | Some v \<Rightarrow> e3\<lparr>entry_type := v\<rparr>)
      in e4)"

definition update_journal_entry ::
  "db \<Rightarrow> datetime \<Rightarrow> int \<Rightarrow> journal_entry_update \<Rightarrow> error + (db \<times> journal_entry option)" where
  "update_journal_entry d now i upd =
     (case get_journal_entry d i of
        None \<Rightarrow> Inr (d, None)
      | Some db_entry \<Rightarrow>
          if status db_entry = ''Posted'' then Inl ImmutablePosted
          else let e1 = set_fields upd db_entry in
            (case upd_journal_lines upd of
               None \<Rightarrow>
                 let e3 = e1\<lparr>updated_at := now\<rparr> in Inr (store_entry e3 d, Some e3)
             | Some ls \<Rightarrow>
                 (case add_lines d ls 0 0 of
                    Inl err \<Rightarrow> Inl err
                  | Inr (debits, credits) \<Rightarrow>
                      let e2 = e1\<lparr>journal_lines := ls, total_debits := debits,
                                  total_credits := credits, is_balanced := (debits = credits)\<rparr>
                      in if \<not> is_balanced e2 then Inl (Unbalanced debits credits)
                         else let e3 = e2\<lparr>updated_at := now\<rparr>
                              in Inr (store_entry e3 d, Some e3))))"

definition post_journal_entry :: "db \<Rightarrow> datetime \<Rightarrow> int \<Rightarrow> error + (db \<times> bool)" where
  "post_journal_entry d now i =
     (case get_journal_entry d i of
        None \<Rightarrow> Inl (NotFound i)
      | Some db_entry \<Rightarrow>
          if status db_entry = ''Posted'' then Inl (AlreadyPosted i)
          else if status db_entry = ''Void'' then Inl (CannotPostVoid i)
          else if \<not> is_balanced db_entry then Inl (PostUnbalanced i)
          else Inr (store_entry
                      (db_entry\<lparr>status := ''Posted'', posted_at := Some now, updated_at := now\<rparr>) d,
                    True))"

text \<open>The parameter \<open>reason\<close> is accepted and not used (\<^verbatim>\<open># TODO: Add void reason field\<close>).\<close>

definition void_journal_entry :: "db \<Rightarrow> datetime \<Rightarrow> int \<Rightarrow> string \<Rightarrow> error + (db \<times> bool)" where
  "void_journal_entry d now i reason =
     (case get_journal_entry d i of
        None \<Rightarrow> Inl (NotFound i)
      | Some db_entry \<Rightarrow>
          if status db_entry = ''Posted'' then Inl (CannotVoidPosted i)
          else if status db_entry = ''Void'' then Inl (AlreadyVoid i)
          else Inr (store_entry (db_entry\<lparr>status := ''Void'', updated_at := now\<rparr>) d, True))"

definition reversing_line :: "journal_entry \<Rightarrow> journal_line_create \<Rightarrow> journal_line_create" where
  "reversing_line original_entry line =
     \<lparr> account_id = account_id line,
       line_number = line_number line,
       line_description = Some (''Reversal of '' @ entry_number original_entry),
       debit_amount = credit_amount line,
       credit_amount = debit_amount line \<rparr>"

definition create_reversing_entry ::
  "db \<Rightarrow> datetime \<Rightarrow> int \<Rightarrow> date \<Rightarrow> error + (db \<times> journal_entry)" where
  "create_reversing_entry d now i reverse_date =
     (case get_journal_entry d i of
        None \<Rightarrow> Inl (NotFound i)
      | Some original_entry \<Rightarrow>
          if status original_entry \<noteq> ''Posted'' then Inl (NotPosted i)
          else let reversing_lines = map (reversing_line original_entry) (journal_lines original_entry);
                   reversing_entry = \<lparr>
                     new_entry_date = reverse_date,
                     new_reference = Some (''REV-'' @ entry_number original_entry),
                     new_description = ''Reversing entry for '' @ entry_number original_entry,
                     new_entry_type = ''System'',
                     new_journal_lines = reversing_lines \<rparr>
               in create_journal_entry d now reversing_entry)"

section \<open>Chart of accounts and balances\<close>

record account_create =
  new_account_code :: string
  new_account_name :: string
  new_account_type :: string
  new_account_category :: string
  new_parent_account_id :: "int option"
  new_account_description :: "string option"
  new_is_active :: bool
  new_is_system_account :: bool
  new_normal_balance :: string

text \<open>
  \<^verbatim>\<open>ChartOfAccountsUpdate\<close> read through \<^verbatim>\<open>dict(exclude_unset=True)\<close>; the two nullable
  columns may be supplied as null.
\<close>

record account_update =
  upd_account_name :: "string option"
  upd_account_type :: "string option"
  upd_account_category :: "string option"
  upd_parent_account_id :: "int option option"
  upd_account_description :: "string option option"
  upd_is_active :: "bool option"
  upd_normal_balance :: "string option"

fun max_acct_id :: "account list \<Rightarrow> int" where
  "max_acct_id [] = 0"
| "max_acct_id (a # as) = max (acct_id a) (max_acct_id as)"

definition get_account :: "db \<Rightarrow> int \<Rightarrow> account option" where
  "get_account d i = find (\<lambda>a. acct_id a = i) (chart_of_accounts d)"

definition store_account :: "account \<Rightarrow> db \<Rightarrow> db" where
  "store_account a d =
     d\<lparr>chart_of_accounts := map (\<lambda>x. if acct_id x = acct_id a then a else x) (chart_of_accounts d)\<rparr>"

text \<open>\<^verbatim>\<open>if account.parent_account_id:\<close> is false for \<open>None\<close> and for \<open>0\<close>.\<close>

definition create_account :: "db \<Rightarrow> datetime \<Rightarrow> account_create \<Rightarrow> error + (db \<times> account)" where
  "create_account d now acc =
     (case find (\<lambda>a. account_code a = new_account_code acc) (chart_of_accounts d) of
        Some existing_account \<Rightarrow> Inl (DuplicateCode (new_account_code acc))
      | None \<Rightarrow>
          (case (case new_parent_account_id acc of
                   None \<Rightarrow> None
                 | Some p \<Rightarrow> if p \<noteq> 0 \<and> get_account d p = None then Some p else None) of
             Some p \<Rightarrow> Inl (ParentNotFound p)
           | None \<Rightarrow>
               let db_account = \<lparr>
                     acct_id = max_acct_id (chart_of_accounts d) + 1,
                     account_code = new_account_code acc,
                     account_name = new_account_name acc,
                     account_type = new_account_type acc,
                     account_category = new_account_category acc,
                     parent_account_id = new_parent_account_id acc,
                     account_description = new_account_description acc,
                     is_active = new_is_active acc,
                     is_system_account = new_is_system_account acc,
                     normal_balance = new_normal_balance acc,
                     acct_created_at = now,
                     acct_updated_at = now \<rparr>
               in Inr (d\<lparr>chart_of_accounts := chart_of_accounts d @ [db_account]\<rparr>, db_account)))"

definition set_account_fields :: "account_update \<Rightarrow> account \<Rightarrow> account" where
  "set_account_fields upd a =
     (let a1 = (case upd_account_name upd of None \<Rightarrow> a | Some v \<Rightarrow> a\<lparr>account_name := v\<rparr>);
          a2 = (case upd_account_type upd of None \<Rightarrow> a1 | Some v \<Rightarrow> a1\<lparr>account_type := v\<rparr>);
          a3 = (case upd_account_category upd of None \<Rightarrow> a2 | Some v \<Rightarrow> a2\<lparr>account_category := v\<rparr>);
          a4 = (case upd_parent_account_id upd of None \<Rightarrow> a3 | Some v \<Rightarrow> a3\<lparr>parent_account_id := v\<rparr>);
          a5 = (case upd_account_description upd of None \<Rightarrow> a4
                | Some v \<Rightarrow> a4\<lparr>account_description := v\<rparr>);
          a6 = (case upd_is_active upd of None \<Rightarrow> a5 | Some v \<Rightarrow> a5\<lparr>is_active := v\<rparr>);
          a7 = (case upd_normal_balance upd of None \<Rightarrow> a6 | Some v \<Rightarrow> a6\<lparr>normal_balance := v\<rparr>)
      in a7)"

text \<open>\<^verbatim>\<open>update_account\<close> returns \<open>None\<close> for an unknown id and raises nothing of its own.\<close>

definition update_account ::
  "db \<Rightarrow> datetime \<Rightarrow> int \<Rightarrow> account_update \<Rightarrow> error + (db \<times> account option)" where
  "update_account d now i upd =
     (case get_account d i of
        None \<Rightarrow> Inr (d, None)
      | Some db_account \<Rightarrow>
          let a = (set_account_fields upd db_account)\<lparr>acct_updated_at := now\<rparr>
          in Inr (store_account a d, Some a))"

definition delete_account :: "db \<Rightarrow> datetime \<Rightarrow> int \<Rightarrow> error + (db \<times> bool)" where
  "delete_account d now i =
     (case get_account d i of
        None \<Rightarrow> Inr (d, False)
      | Some db_account \<Rightarrow>
          let child_accounts =
                length (filter (\<lambda>a. parent_account_id a = Some i \<and> is_active a) (chart_of_accounts d))
          in if child_accounts > 0 then Inl (HasActiveChildren child_accounts)
             else Inr (store_account (db_account\<lparr>is_active := False, acct_updated_at := now\<rparr>) d,
                       True))"

record account_balance =
  bal_account_id :: int
  bal_account_code :: string
  bal_account_name :: string
  bal_as_of_date :: datetime
  debit_balance :: decimal
  credit_balance :: decimal
  net_balance :: decimal

text \<open>
  \<^verbatim>\<open>get_account_balance\<close> as the source has it: the three amounts are the constants
  \<^verbatim>\<open>Decimal("0.00")\<close> (\<^verbatim>\<open># TODO: Implement actual balance calculation from journal entries\<close>).
\<close>

definition get_account_balance ::
  "db \<Rightarrow> datetime \<Rightarrow> int \<Rightarrow> datetime option \<Rightarrow> error + account_balance" where
  "get_account_balance d now i as_of_date =
     (case get_account d i of
        None \<Rightarrow> Inl (AccountNotFound i)
      | Some acc \<Rightarrow>
          Inr \<lparr> bal_account_id = i,
                bal_account_code = account_code acc,
                bal_account_name = account_name acc,
                bal_as_of_date = (case as_of_date of Some t \<Rightarrow> t | None \<Rightarrow> now),
                debit_balance = 0,
                credit_balance = 0,
                net_balance = 0 \<rparr>)"

section \<open>Aging report of the accounts-receivable service\<close>

text \<open>
  Modelled from the spec: the \<^verbatim>\<open>Invoice\<close> model (\<^verbatim>\<open>models/invoices.py\<close>) is not among the
  sources. The record holds the columns that \<^verbatim>\<open>generate_aging_report\<close> reads; the spec
  names them as the fields of the invoice-like records of the AP/AR collaborators.
\<close>

record invoice =
  invoice_id :: int
  customer_id :: int
  invoice_status :: string
  due_date :: date
  total_amount :: decimal
  paid_amount :: decimal

text \<open>
  The keys of the dictionary \<^verbatim>\<open>aging_buckets\<close>, in the order of the source:
  \<^verbatim>\<open>"current"\<close>, \<^verbatim>\<open>"1_30_days"\<close>, \<^verbatim>\<open>"31_60_days"\<close>, \<^verbatim>\<open>"61_90_days"\<close>, \<^verbatim>\<open>"over_90_days"\<close>.
\<close>

datatype bucket = Current | Days_1_30 | Days_31_60 | Days_61_90 | Over_90_days

record aging_bucket =
  amount :: decimal
  count :: nat

record aging_report =
  report_as_of_date :: date
  report_customer_id :: "int option"
  aging_buckets :: "bucket \<Rightarrow> aging_bucket"
  total_outstanding :: decimal
  total_invoices :: nat

text \<open>The query: the three conditions of the filter, then the customer when one is given.\<close>

definition unpaid_invoices :: "invoice list \<Rightarrow> date \<Rightarrow> int option \<Rightarrow> invoice list" where
  "unpaid_invoices table as_of_date cust =
     (let query = filter (\<lambda>iv. invoice_status iv = ''Sent'' \<and> due_date iv \<le> as_of_date
                              \<and> paid_amount iv < total_amount iv) table
      in case cust of
           None \<Rightarrow> query
         | Some c \<Rightarrow> if c \<noteq> 0 then filter (\<lambda>iv. customer_id iv = c) query else query)"

definition bucket_of :: "int \<Rightarrow> bucket" where
  "bucket_of days_overdue =
     (if days_overdue \<le> 0 then Current
      else if days_overdue \<le> 30 then Days_1_30
      else if days_overdue \<le> 60 then Days_31_60
      else if days_overdue \<le> 90 then Days_61_90
      else Over_90_days)"

fun aging_loop ::
  "date \<Rightarrow> invoice list \<Rightarrow> (bucket \<Rightarrow> aging_bucket) \<Rightarrow> decimal \<Rightarrow> (bucket \<Rightarrow> aging_bucket) \<times> decimal" where
  "aging_loop as_of_date [] buckets outstanding = (buckets, outstanding)"
| "aging_loop as_of_date (iv # ivs) buckets outstanding =
     (let outstanding_amount = total_amount iv - paid_amount iv;
          days_overdue = as_of_date - due_date iv;
          b = bucket_of days_overdue;
          buckets' = buckets(b := \<lparr>amount = amount (buckets b) + outstanding_amount,
                                   count = count (buckets b) + 1\<rparr>)
      in aging_loop as_of_date ivs buckets' (outstanding + outstanding_amount))"

definition generate_aging_report :: "invoice list \<Rightarrow> date \<Rightarrow> int option \<Rightarrow> aging_report" where
  "generate_aging_report table as_of_date cust =
     (let invoices = unpaid_invoices table as_of_date cust;
          (buckets, outstanding) = aging_loop as_of_date invoices (\<lambda>b. \<lparr>amount = 0, count = 0\<rparr>) 0
      in \<lparr> report_as_of_date = as_of_date,
           report_customer_id = cust,
           aging_buckets = buckets,
           total_outstanding = outstanding,
           total_invoices = length invoices \<rparr>)"

section \<open>Sequences of operations\<close>

text \<open>
  One constructor per operation of the two services that writes. An operation that
  raises is rolled back, so the database after it is the database before it.
\<close>

datatype op =
    Create_entry datetime journal_entry_create
  | Update_entry datetime int journal_entry_update
  | Post_entry datetime int
  | Void_entry datetime int string
  | Reverse_entry datetime int date
  | Create_account datetime account_create
  | Update_account datetime int account_update
  | Delete_account datetime int

definition committed :: "db \<Rightarrow> error + (db \<times> 'a) \<Rightarrow> db" where
  "committed d r = (case r of Inl e \<Rightarrow> d | Inr (d', x) \<Rightarrow> d')"

fun exec :: "db \<Rightarrow> op \<Rightarrow> db" where
  "exec d (Create_entry now entry) = committed d (create_journal_entry d now entry)"
| "exec d (Update_entry now i upd) = committed d (update_journal_entry d now i upd)"
| "exec d (Post_entry now i) = committed d (post_journal_entry d now i)"
| "exec d (Void_entry now i reason) = committed d (void_journal_entry d now i reason)"
| "exec d (Reverse_entry now i reverse_date) = committed d (create_reversing_entry d now i reverse_date)"
| "exec d (Create_account now acc) = committed d (create_account d now acc)"
| "exec d (Update_account now i upd) = committed d (update_account d now i upd)"
| "exec d (Delete_account now i) = committed d (delete_account d now i)"

text \<open>The databases observed after each operation of a sequence, and the last of them.\<close>

fun run :: "db \<Rightarrow> op list \<Rightarrow> db list" where
  "run d [] = []"
| "run d (x # xs) = exec d x # run (exec d x) xs"

fun exec_all :: "db \<Rightarrow> op list \<Rightarrow> db" where
  "exec_all d [] = d"
| "exec_all d (x # xs) = exec_all (exec d x) xs"

definition empty_db :: db where
  "empty_db = \<lparr>chart_of_accounts = [], journal_entries = []\<rparr>"

definition status_of :: "db \<Rightarrow> int \<Rightarrow> string option" where
  "status_of d i = map_option status (get_journal_entry d i)"

text \<open>
  The statuses of entry \<open>i\<close> seen after each operation, from the first moment the entry
  exists, with repetitions of the same status merged.
\<close>

definition status_history :: "int \<Rightarrow> db \<Rightarrow> op list \<Rightarrow> string list" where
  "status_history i d ops = remdups_adj (List.map_filter (\<lambda>s. status_of s i) (run d ops))"

text \<open>
  The entries table is numbered when each row carries the number that
  \<^verbatim>\<open>_generate_entry_number\<close> gives at the moment the row is inserted after the rows
  before it; \<open>seen\<close> are the rows before.
\<close>

fun numbered :: "journal_entry list \<Rightarrow> journal_entry list \<Rightarrow> bool" where
  "numbered seen [] = True"
| "numbered seen (e # es) =
     (entry_number e =
        format_entry_number (year (created_at e)) (count_year seen (year (created_at e)) + 1)
      \<and> numbered (seen @ [e]) es)"

text \<open>
  The balance the specification describes, for comparison with \<open>get_account_balance\<close>:
  the lines of the posted entries dated up to \<open>as_of\<close> (no bound when \<open>None\<close>) that
  name the account, their two sums, and the net signed by the normal balance.
\<close>

definition spec_balance_lines :: "db \<Rightarrow> int \<Rightarrow> date option \<Rightarrow> journal_line_create list" where
  "spec_balance_lines d i as_of =
     filter (\<lambda>l. account_id l = i)
       (concat (map journal_lines
          (filter (\<lambda>e. status e = ''Posted'' \<and> (case as_of of None \<Rightarrow> True | Some t \<Rightarrow> entry_date e \<le> t))
             (journal_entries d))))"

definition spec_account_balance :: "db \<Rightarrow> int \<Rightarrow> date option \<Rightarrow> (decimal \<times> decimal \<times> decimal) option" where
  "spec_account_balance d i as_of =
     (case get_account d i of
        None \<Rightarrow> None
      | Some acc \<Rightarrow>
          let debits = sum_list (map debit_amount (spec_balance_lines d i as_of));
              credits = sum_list (map credit_amount (spec_balance_lines d i as_of))
          in Some (debits, credits,
                   if normal_balance acc = ''Debit'' then debits - credits else credits - debits))"

section \<open>Reading an entry number back\<close>

text \<open>
  The value of a string of decimal digits. It is used only to show that two different
  sequence numbers are never printed alike.
\<close>

definition digit_val :: "char \<Rightarrow> nat" where
  "digit_val c = of_char c - 48"

definition nat_of_string :: "string \<Rightarrow> nat" where
  "nat_of_string s = foldl (\<lambda>n c. 10 * n + digit_val c) 0 s"

section \<open>Example data\<close>

text \<open>
  The scenario of the specification: the accounts \<^verbatim>\<open>1000/Cash\<close> (Asset, Debit) and
  \<^verbatim>\<open>4000/Sales\<close> (Revenue, Credit), and an entry that debits the first and credits the
  second by 150.00. The databases are built by running the operations on the empty one.
\<close>

definition example_now :: datetime where
  "example_now = \<lparr>year = 2024, within_year = 0\<rparr>"

definition example_cash :: account_create where
  "example_cash = \<lparr> new_account_code = ''1000'', new_account_name = ''Cash'',
     new_account_type = ''Asset'', new_account_category = ''Current Assets'',
     new_parent_account_id = None, new_account_description = None, new_is_active = True,
     new_is_system_account = False, new_normal_balance = ''Debit'' \<rparr>"

definition example_sales :: account_create where
  "example_sales = \<lparr> new_account_code = ''4000'', new_account_name = ''Sales'',
     new_account_type = ''Revenue'', new_account_category = ''Income'',
     new_parent_account_id = None, new_account_description = None, new_is_active = True,
     new_is_system_account = False, new_normal_balance = ''Credit'' \<rparr>"

definition example_line :: "int \<Rightarrow> int \<Rightarrow> decimal \<Rightarrow> decimal \<Rightarrow> journal_line_create" where
  "example_line acc n dr cr = \<lparr> account_id = acc, line_number = n, line_description = None,
     debit_amount = dr, credit_amount = cr \<rparr>"

definition example_entry :: "journal_line_create list \<Rightarrow> journal_entry_create" where
  "example_entry ls = \<lparr> new_entry_date = 738886, new_reference = None,
     new_description = ''Cash sale'', new_entry_type = ''Manual'', new_journal_lines = ls \<rparr>"

definition example_sale :: journal_entry_create where
  "example_sale = example_entry [example_line 1 1 15000 0, example_line 2 2 0 15000]"

definition example_accounts_db :: db where
  "example_accounts_db =
     exec_all empty_db [Create_account example_now example_cash, Create_account example_now example_sales]"

definition example_draft_db :: db where
  "example_draft_db = exec example_accounts_db (Create_entry example_now example_sale)"

definition example_posted_db :: db where
  "example_posted_db = exec example_draft_db (Post_entry example_now 1)"


definition example_void_db :: db where
  "example_void_db = exec example_draft_db (Void_entry example_now 1 ''entered twice'')"

text \<open>The row that creating the example entry stores.\<close>

definition example_draft_row :: journal_entry where
  "example_draft_row =
     \<lparr> entry_id = 1, entry_number = ''JE-2024-00001'', entry_date = 738886,
       reference = None, description = ''Cash sale'', status = ''Draft'',
       entry_type = ''Manual'', total_debits = 15000, total_credits = 15000,
       is_balanced = True, posted_at = None, posted_by = None,
       created_at = example_now, updated_at = example_now,
       created_by = None, updated_by = None,
       journal_lines = [example_line 1 1 15000 0, example_line 2 2 0 15000] \<rparr>"

text \<open>
  A draft row whose stored flag \<open>is_balanced\<close> is false (the default of the column). The
  service itself never stores such a row; it is the input on which posting reports an
  unbalanced entry.
\<close>

definition example_unbalanced_row :: journal_entry where
  "example_unbalanced_row =
     \<lparr> entry_id = 1, entry_number = ''JE-2024-00001'', entry_date = 738886,
       reference = None, description = ''Imported'', status = ''Draft'',
       entry_type = ''Manual'', total_debits = 10000, total_credits = 9000,
       is_balanced = False, posted_at = None, posted_by = None,
       created_at = example_now, updated_at = example_now,
       created_by = None, updated_by = None,
       journal_lines = [example_line 1 1 10000 0, example_line 2 2 0 9000] \<rparr>"

definition example_unbalanced_db :: db where
  "example_unbalanced_db = example_accounts_db\<lparr>journal_entries := [example_unbalanced_row]\<rparr>"

section \<open>The life cycle of an entry\<close>

text \<open>
  One step of the status of an entry, where \<open>None\<close> is an entry that does not exist:
  nothing changes, or the entry appears as a draft, or an entry that is neither posted
  nor void becomes posted or void.
\<close>

definition lifecycle_step :: "string option \<Rightarrow> string option \<Rightarrow> bool" where
  "lifecycle_step s s' =
     (s' = s \<or> (s = None \<and> s' = Some ''Draft'')
      \<or> (s \<noteq> None \<and> s \<noteq> Some ''Posted'' \<and> s \<noteq> Some ''Void''
          \<and> (s' = Some ''Posted'' \<or> s' = Some ''Void'')))"

text \<open>The posted example after the account \<^verbatim>\<open>4000/Sales\<close> has been deactivated.\<close>

definition example_closed_db :: db where
  "example_closed_db = exec example_posted_db (Delete_account example_now 2)"

text \<open>The row of the example entry once posted.\<close>

definition example_posted_row :: journal_entry where
  "example_posted_row =
     example_draft_row\<lparr>status := ''Posted'', posted_at := Some example_now\<rparr>"

text \<open>An update request that supplies only \<^verbatim>\<open>parent_account_id\<close>.\<close>

definition example_set_parent :: "int \<Rightarrow> account_update" where
  "example_set_parent p = \<lparr> upd_account_name = None, upd_account_type = None,
     upd_account_category = None, upd_parent_account_id = Some (Some p),
     upd_account_description = None, upd_is_active = None, upd_normal_balance = None \<rparr>"

definition example_self_parent_db :: db where
  "example_self_parent_db =
     exec example_accounts_db (Update_account example_now 1 (example_set_parent 1))"

text \<open>\<^verbatim>\<open>4000/Sales\<close> made a child of \<^verbatim>\<open>1000/Cash\<close>, and then the parent made a child of its child.\<close>

definition example_child_db :: db where
  "example_child_db =
     exec example_accounts_db (Update_account example_now 2 (example_set_parent 1))"

definition example_cycle_db :: db where
  "example_cycle_db = exec example_child_db (Update_account example_now 1 (example_set_parent 2))"


text \<open>
  Three invoices for a report as of day 738886: one due on that day, one due 45 days
  before it, and one due 31 days after it.
\<close>

definition example_invoice :: "int \<Rightarrow> date \<Rightarrow> decimal \<Rightarrow> decimal \<Rightarrow> invoice" where
  "example_invoice n due total_amt paid = \<lparr> invoice_id = n, customer_id = 7,
     invoice_status = ''Sent'', due_date = due, total_amount = total_amt, paid_amount = paid \<rparr>"

definition example_invoices :: "invoice list" where
  "example_invoices =
     [example_invoice 1 738886 50000 0, example_invoice 2 738841 30000 10000,
      example_invoice 3 738917 70000 0]"


definition example_void_row :: journal_entry where
  "example_void_row = example_draft_row\<lparr>status := ''Void''\<rparr>"

section \<open>Well-formed entries table\<close>

text \<open>
  The entries table as the service leaves it: numbered, and with pairwise different
  primary keys.
\<close>

definition entries_ok :: "db \<Rightarrow> bool" where
  "entries_ok d =
     (numbered [] (journal_entries d) \<and> distinct (map entry_id (journal_entries d)))"


section \<open>The example databases, evaluated\<close>

lemma example_accounts_db_eval [code]:
  "example_accounts_db =
   \<lparr>chart_of_accounts =
    [\<lparr>acct_id = 1, account_code = ''1000'', account_name = ''Cash'',
        account_type = ''Asset'', account_category = ''Current Assets'',
        parent_account_id = None, account_description = None,
        is_active = True, is_system_account = False,
        normal_balance = ''Debit'',
        acct_created_at = \<lparr>year = 2024, within_year = 0\<rparr>,
        acct_updated_at = \<lparr>year = 2024, within_year = 0\<rparr>\<rparr>,
     \<lparr>acct_id = 2, account_code = ''4000'', account_name = ''Sales'',
        account_type = ''Revenue'', account_category = ''Income'',
        parent_account_id = None, account_description = None,
        is_active = True, is_system_account = False,
        normal_balance = ''Credit'',
        acct_created_at = \<lparr>year = 2024, within_year = 0\<rparr>,
        acct_updated_at = \<lparr>year = 2024, within_year = 0\<rparr>\<rparr>],
    journal_entries = []\<rparr>"
  by code_simp

lemma example_draft_db_eval [code]:
  "example_draft_db = example_accounts_db\<lparr>journal_entries := [example_draft_row]\<rparr>"
  by code_simp

lemma example_posted_db_eval [code]:
  "example_posted_db = example_accounts_db\<lparr>journal_entries := [example_posted_row]\<rparr>"
  by code_simp

lemma example_void_db_eval [code]:
  "example_void_db = example_accounts_db\<lparr>journal_entries := [example_void_row]\<rparr>"
  by code_simp

section \<open>Entry numbers are printed injectively\<close>

lemma digit_val_digit_char: "d < 10 \<Longrightarrow> digit_val (digit_char d) = d"
  by (simp add: digit_val_def digit_char_def)

lemma nat_of_string_snoc: "nat_of_string (s @ [c]) = 10 * nat_of_string s + digit_val c"
  by (simp add: nat_of_string_def)

lemma nat_of_string_of_nat: "nat_of_string (string_of_nat n) = n"
proof (induction n rule: string_of_nat.induct)
  case (1 n)
  show ?case
  proof (cases "n < 10")
    case True
    then have "string_of_nat n = [digit_char n]"
      by (subst string_of_nat.simps) simp
    with True show ?thesis
      by (simp add: nat_of_string_def digit_val_digit_char)
  next
    case False
    then have "string_of_nat n = string_of_nat (n div 10) @ [digit_char (n mod 10)]"
      by (subst string_of_nat.simps) simp
    with False 1 show ?thesis
      by (simp add: nat_of_string_snoc digit_val_digit_char)
  qed
qed


lemma nat_of_string_zeros: "nat_of_string (replicate k (CHR ''0'') @ s) = nat_of_string s"
proof -
  have "foldl (\<lambda>n c. 10 * n + digit_val c) 0 (replicate k (CHR ''0'')) = 0"
    by (induction k) (simp_all add: digit_val_def)
  then show ?thesis by (simp add: nat_of_string_def)
qed

lemma nat_of_string_zfill: "nat_of_string (zfill w (string_of_nat n)) = n"
  by (simp add: zfill_def nat_of_string_zeros nat_of_string_of_nat)

lemma of_char_digit_char: "d < 10 \<Longrightarrow> (of_char (digit_char d) :: nat) = 48 + d"
  by (simp add: digit_char_def)

lemma digit_char_not_dash: "d < 10 \<Longrightarrow> digit_char d \<noteq> CHR ''-''"
proof
  assume "d < 10" "digit_char d = CHR ''-''"
  then have "(of_char (digit_char d) :: nat) = of_char (CHR ''-'')" by simp
  with \<open>d < 10\<close> show False by (simp add: of_char_digit_char)
qed

lemma dash_notin_string_of_nat: "CHR ''-'' \<notin> set (string_of_nat n)"
proof (induction n rule: string_of_nat.induct)
  case (1 n)
  show ?case
  proof (cases "n < 10")
    case True
    then have "string_of_nat n = [digit_char n]"
      by (subst string_of_nat.simps) simp
    with True show ?thesis
      using digit_char_not_dash [of n] by auto
  next
    case False
    then have "string_of_nat n = string_of_nat (n div 10) @ [digit_char (n mod 10)]"
      by (subst string_of_nat.simps) simp
    with False 1 show ?thesis
      using digit_char_not_dash [of "n mod 10"] by auto
  qed
qed

lemma split_at_first:
  "x \<notin> set xs \<Longrightarrow> x \<notin> set xs' \<Longrightarrow> xs @ x # ys = xs' @ x # ys' \<Longrightarrow> xs = xs' \<and> ys = ys'"
proof (induction xs arbitrary: xs')
  case Nil
  then show ?case by (cases xs') auto
next
  case (Cons a xs)
  then show ?case by (cases xs') auto
qed

lemma format_entry_number_inj:
  assumes "format_entry_number y n = format_entry_number y' n'"
  shows "y = y' \<and> n = n'"
proof -
  let ?a = "string_of_nat y" and ?b = "zfill 5 (string_of_nat n)"
  let ?a' = "string_of_nat y'" and ?b' = "zfill 5 (string_of_nat n')"
  from assms have "''JE-'' @ (?a @ CHR ''-'' # ?b) = ''JE-'' @ (?a' @ CHR ''-'' # ?b')"
    unfolding format_entry_number_def by simp
  then have eq: "?a @ CHR ''-'' # ?b = ?a' @ CHR ''-'' # ?b'"
    by (rule same_append_eq [THEN iffD1])
  have "?a = ?a' \<and> ?b = ?b'"
    by (rule split_at_first [OF dash_notin_string_of_nat dash_notin_string_of_nat eq])
  then have "nat_of_string ?a = nat_of_string ?a'" and "nat_of_string ?b = nat_of_string ?b'"
    by simp_all
  then show ?thesis
    by (simp only: nat_of_string_of_nat nat_of_string_zfill)
qed

section \<open>Creating an entry\<close>

lemma find_snoc:
  "find P (xs @ [x]) = (case find P xs of Some y \<Rightarrow> Some y | None \<Rightarrow> if P x then Some x else None)"
  by (induction xs) auto

lemma max_entry_id_ge: "e \<in> set es \<Longrightarrow> entry_id e \<le> max_entry_id es"
  by (induction es) auto

lemma find_next_entry_id: "find (\<lambda>e. entry_id e = max_entry_id es + 1) es = None"
proof -
  have "\<not> (\<exists>e. e \<in> set es \<and> entry_id e = max_entry_id es + 1)"
    using max_entry_id_ge by fastforce
  then show ?thesis by (simp only: find_None_iff not_False_eq_True)
qed

lemma find_active_account_None:
  "find_active_account d i = None \<longleftrightarrow> \<not> (\<exists>a \<in> set (chart_of_accounts d). acct_id a = i \<and> is_active a)"
  by (auto simp: find_active_account_def find_None_iff)

lemma validate_lines_Inr:
  "validate_lines d ls = Inr u \<longleftrightarrow> (\<forall>l \<in> set ls. find_active_account d (account_id l) \<noteq> None)"
  by (induction ls) (auto split: option.splits)

lemma validate_lines_Inl:
  "validate_lines d ls = Inl e \<Longrightarrow>
     \<exists>l \<in> set ls. e = InvalidAccount (account_id l) \<and> find_active_account d (account_id l) = None"
  by (induction ls) (auto split: option.splits)

lemma count_year_append: "count_year (xs @ ys) y = count_year xs y + count_year ys y"
  by (simp add: count_year_def)

lemma numbered_bound:
  "numbered seen es \<Longrightarrow> e \<in> set es \<Longrightarrow>
     \<exists>n. entry_number e = format_entry_number (year (created_at e)) n
       \<and> n \<le> count_year (seen @ es) (year (created_at e))"
proof (induction es arbitrary: seen)
  case Nil
  then show ?case by simp
next
  case (Cons x es)
  show ?case
  proof (cases "e = x")
    case True
    have "count_year seen (year (created_at x)) + 1 \<le> count_year (seen @ x # es) (year (created_at x))"
      by (simp add: count_year_def)
    with Cons.prems(1) True show ?thesis by auto
  next
    case False
    with Cons.prems have "e \<in> set es" and "numbered (seen @ [x]) es" by auto
    from Cons.IH [OF this(2) this(1)] show ?thesis by simp
  qed
qed

lemma numbered_fresh:
  assumes "numbered [] es"
  shows "format_entry_number y (count_year es y + 1) \<notin> set (map entry_number es)"
proof
  assume "format_entry_number y (count_year es y + 1) \<in> set (map entry_number es)"
  then obtain e where e: "e \<in> set es" "entry_number e = format_entry_number y (count_year es y + 1)"
    by auto
  from numbered_bound [OF assms e(1)] obtain n where
    n: "entry_number e = format_entry_number (year (created_at e)) n"
       "n \<le> count_year es (year (created_at e))" by auto
  from e(2) n(1) have "y = year (created_at e) \<and> count_year es y + 1 = n"
    using format_entry_number_inj by metis
  with n(2) show False by auto
qed


lemma get_journal_entry_created:
  "get_journal_entry (d\<lparr>journal_entries := journal_entries d @ [e]\<rparr>) (max_entry_id (journal_entries d) + 1)
     = (if entry_id e = max_entry_id (journal_entries d) + 1 then Some e else None)"
  by (simp add: get_journal_entry_def find_snoc find_next_entry_id)

lemma create_journal_entry_Inr:
  assumes "create_journal_entry d now entry = Inr (d', e)"
  shows "e = \<lparr> entry_id = max_entry_id (journal_entries d) + 1,
               entry_number = generate_entry_number d now,
               entry_date = new_entry_date entry,
               reference = new_reference entry,
               description = new_description entry,
               status = ''Draft'',
               entry_type = new_entry_type entry,
               total_debits = sum_list (map debit_amount (new_journal_lines entry)),
               total_credits = sum_list (map credit_amount (new_journal_lines entry)),
               is_balanced = True,
               posted_at = None, posted_by = None, created_at = now, updated_at = now,
               created_by = None, updated_by = None,
               journal_lines = new_journal_lines entry \<rparr>"
    and "d' = d\<lparr>journal_entries := journal_entries d @ [e]\<rparr>"
    and "sum_list (map debit_amount (new_journal_lines entry))
           = sum_list (map credit_amount (new_journal_lines entry))"
    and "generate_entry_number d now \<notin> set (map entry_number (journal_entries d))"
    and "validate_lines d (new_journal_lines entry) = Inr ()"
  using assms
  by (auto simp: create_journal_entry_def Let_def split: if_splits sum.splits)

lemma create_journal_entry_succeeds:
  assumes "sum_list (map debit_amount (new_journal_lines entry))
           = sum_list (map credit_amount (new_journal_lines entry))"
    and "generate_entry_number d now \<notin> set (map entry_number (journal_entries d))"
    and "validate_lines d (new_journal_lines entry) = Inr ()"
  shows "\<exists>d' e. create_journal_entry d now entry = Inr (d', e)"
  using assms by (simp add: create_journal_entry_def Let_def)

lemma generate_entry_number_fresh:
  "numbered [] (journal_entries d) \<Longrightarrow>
     generate_entry_number d now \<notin> set (map entry_number (journal_entries d))"
  unfolding generate_entry_number_def Let_def by (rule numbered_fresh)

text \<open>
  Claim C1. \<open>create_journal_entry\<close> computes the two totals as the sums of the lines'
  \<open>debit_amount\<close> and \<open>credit_amount\<close>. When the sums differ it fails with
  \<open>Unbalanced\<close>, carrying both sums. When the sums agree and a line names an account
  that is missing or inactive it fails with \<open>InvalidAccount\<close> for such a line (the
  balance is checked first, as in the source). When the sums agree and every line names an
  active account it succeeds. Whenever it succeeds the entry it returns has status
  \<open>Draft\<close>, carries the two sums as its totals and the given lines, and is the row
  stored in the new database. The entries table is assumed numbered by the service, so
  that the unique index on \<open>entry_number\<close> does not refuse the insertion.
\<close>

theorem create_journal_entry_totals:
  "(sum_list (map debit_amount (new_journal_lines entry))
      \<noteq> sum_list (map credit_amount (new_journal_lines entry)) \<longrightarrow>
      create_journal_entry d now entry =
        Inl (Unbalanced (sum_list (map debit_amount (new_journal_lines entry)))
                        (sum_list (map credit_amount (new_journal_lines entry)))))
   \<and> (sum_list (map debit_amount (new_journal_lines entry))
        = sum_list (map credit_amount (new_journal_lines entry))
      \<and> numbered [] (journal_entries d)
      \<and> (\<exists>l \<in> set (new_journal_lines entry).
            \<not> (\<exists>a \<in> set (chart_of_accounts d). acct_id a = account_id l \<and> is_active a)) \<longrightarrow>
      (\<exists>l \<in> set (new_journal_lines entry).
          create_journal_entry d now entry = Inl (InvalidAccount (account_id l))
        \<and> \<not> (\<exists>a \<in> set (chart_of_accounts d). acct_id a = account_id l \<and> is_active a)))
   \<and> (sum_list (map debit_amount (new_journal_lines entry))
        = sum_list (map credit_amount (new_journal_lines entry))
      \<and> numbered [] (journal_entries d)
      \<and> (\<forall>l \<in> set (new_journal_lines entry).
            \<exists>a \<in> set (chart_of_accounts d). acct_id a = account_id l \<and> is_active a) \<longrightarrow>
      (\<exists>d' e. create_journal_entry d now entry = Inr (d', e)))
   \<and> (\<forall>d' e. create_journal_entry d now entry = Inr (d', e) \<longrightarrow>
        status e = ''Draft''
      \<and> total_debits e = sum_list (map debit_amount (new_journal_lines entry))
      \<and> total_credits e = sum_list (map credit_amount (new_journal_lines entry))
      \<and> total_debits e = total_credits e
      \<and> journal_lines e = new_journal_lines entry
      \<and> journal_entries d' = journal_entries d @ [e]
      \<and> get_journal_entry d' (entry_id e) = Some e)"
  (is "?unbalanced \<and> ?invalid \<and> ?success \<and> ?stored")
proof (intro conjI)
  show ?unbalanced
    by (simp add: create_journal_entry_def Let_def)
next
  show ?invalid
  proof (intro impI, elim conjE)
    assume bal: "sum_list (map debit_amount (new_journal_lines entry))
        = sum_list (map credit_amount (new_journal_lines entry))"
      and num: "numbered [] (journal_entries d)"
      and bad: "\<exists>l \<in> set (new_journal_lines entry).
            \<not> (\<exists>a \<in> set (chart_of_accounts d). acct_id a = account_id l \<and> is_active a)"
    from bad have "validate_lines d (new_journal_lines entry) \<noteq> Inr ()"
      by (simp add: validate_lines_Inr find_active_account_None)
    then obtain err where err: "validate_lines d (new_journal_lines entry) = Inl err"
      by (cases "validate_lines d (new_journal_lines entry)") auto
    from validate_lines_Inl [OF err] obtain l where
      l: "l \<in> set (new_journal_lines entry)" "err = InvalidAccount (account_id l)"
         "find_active_account d (account_id l) = None" by blast
    have "create_journal_entry d now entry = Inl err"
      using bal generate_entry_number_fresh [OF num, of now] err
      by (simp add: create_journal_entry_def Let_def)
    with l show "\<exists>l \<in> set (new_journal_lines entry).
          create_journal_entry d now entry = Inl (InvalidAccount (account_id l))
        \<and> \<not> (\<exists>a \<in> set (chart_of_accounts d). acct_id a = account_id l \<and> is_active a)"
      using find_active_account_None by blast
  qed
next
  show ?success
  proof (intro impI, elim conjE)
    assume bal: "sum_list (map debit_amount (new_journal_lines entry))
        = sum_list (map credit_amount (new_journal_lines entry))"
      and num: "numbered [] (journal_entries d)"
      and ok: "\<forall>l \<in> set (new_journal_lines entry).
            \<exists>a \<in> set (chart_of_accounts d). acct_id a = account_id l \<and> is_active a"
    from ok have "validate_lines d (new_journal_lines entry) = Inr ()"
      by (simp add: validate_lines_Inr find_active_account_None)
    with bal generate_entry_number_fresh [OF num, of now]
    show "\<exists>d' e. create_journal_entry d now entry = Inr (d', e)"
      by (rule create_journal_entry_succeeds)
  qed
next
  show ?stored
  proof (intro allI impI)
    fix d' e
    assume r: "create_journal_entry d now entry = Inr (d', e)"
    note facts = create_journal_entry_Inr [OF r]
    have id: "entry_id e = max_entry_id (journal_entries d) + 1"
      by (subst facts(1)) simp
    have "get_journal_entry d' (entry_id e) = Some e"
      unfolding facts(2) id by (subst get_journal_entry_created) (simp add: id)
    moreover have "status e = ''Draft''" by (subst facts(1)) simp
    moreover have "total_debits e = sum_list (map debit_amount (new_journal_lines entry))"
      by (subst facts(1)) simp
    moreover have "total_credits e = sum_list (map credit_amount (new_journal_lines entry))"
      by (subst facts(1)) simp
    moreover have "journal_lines e = new_journal_lines entry" by (subst facts(1)) simp
    moreover have "journal_entries d' = journal_entries d @ [e]" by (subst facts(2)) simp
    ultimately show "status e = ''Draft''
      \<and> total_debits e = sum_list (map debit_amount (new_journal_lines entry))
      \<and> total_credits e = sum_list (map credit_amount (new_journal_lines entry))
      \<and> total_debits e = total_credits e
      \<and> journal_lines e = new_journal_lines entry
      \<and> journal_entries d' = journal_entries d @ [e]
      \<and> get_journal_entry d' (entry_id e) = Some e"
      using facts(3) by simp
  qed
qed

theorem create_journal_entry_totals_witness:
  "create_journal_entry example_accounts_db example_now
       (example_entry [example_line 1 1 10000 0, example_line 2 2 0 9000])
     = Inl (Unbalanced 10000 9000)
   \<and> create_journal_entry example_accounts_db example_now
       (example_entry [example_line 1 1 15000 0, example_line 7 2 0 15000])
     = Inl (InvalidAccount 7)
   \<and> (\<exists>d' e. create_journal_entry example_accounts_db example_now example_sale = Inr (d', e)
         \<and> status e = ''Draft'' \<and> total_debits e = 15000 \<and> total_credits e = 15000
         \<and> get_journal_entry d' (entry_id e) = Some e)"
proof (intro conjI)
  show "create_journal_entry example_accounts_db example_now
       (example_entry [example_line 1 1 10000 0, example_line 2 2 0 9000])
     = Inl (Unbalanced 10000 9000)"
    using create_journal_entry_totals
      [of "example_entry [example_line 1 1 10000 0, example_line 2 2 0 9000]"
          example_accounts_db example_now]
    by (simp add: example_entry_def example_line_def)
next
  show "create_journal_entry example_accounts_db example_now
       (example_entry [example_line 1 1 15000 0, example_line 7 2 0 15000])
     = Inl (InvalidAccount 7)"
    using create_journal_entry_totals
      [of "example_entry [example_line 1 1 15000 0, example_line 7 2 0 15000]"
          example_accounts_db example_now]
    by (simp add: example_entry_def example_line_def example_accounts_db_eval)
next
  have "\<exists>d' e. create_journal_entry example_accounts_db example_now example_sale = Inr (d', e)"
    using create_journal_entry_totals [of example_sale example_accounts_db example_now]
    by (simp add: example_sale_def example_entry_def example_line_def example_accounts_db_eval)
  then obtain d' e where
    r: "create_journal_entry example_accounts_db example_now example_sale = Inr (d', e)"
    by blast
  with create_journal_entry_totals [of example_sale example_accounts_db example_now]
  have "status e = ''Draft'' \<and> total_debits e = 15000 \<and> total_credits e = 15000
         \<and> get_journal_entry d' (entry_id e) = Some e"
    by (simp add: example_sale_def example_entry_def example_line_def)
  with r show "\<exists>d' e. create_journal_entry example_accounts_db example_now example_sale = Inr (d', e)
         \<and> status e = ''Draft'' \<and> total_debits e = 15000 \<and> total_credits e = 15000
         \<and> get_journal_entry d' (entry_id e) = Some e"
    by blast
qed

section \<open>Status steps\<close>

lemma find_replace:
  "find (\<lambda>x. entry_id x = j) (map (\<lambda>x. if entry_id x = entry_id e then e else x) es)
     = (if j = entry_id e then map_option (\<lambda>x. e) (find (\<lambda>x. entry_id x = j) es)
        else find (\<lambda>x. entry_id x = j) es)"
  by (induction es) auto

lemma get_journal_entry_store:
  "get_journal_entry (store_entry e d) j
     = (if j = entry_id e then map_option (\<lambda>x. e) (get_journal_entry d j)
        else get_journal_entry d j)"
  by (simp add: get_journal_entry_def store_entry_def find_replace)

lemma get_journal_entry_id: "get_journal_entry d i = Some e \<Longrightarrow> entry_id e = i"
  by (auto simp: get_journal_entry_def find_Some_iff)

lemma get_journal_entry_append:
  "get_journal_entry d i = Some e \<Longrightarrow>
     get_journal_entry (d\<lparr>journal_entries := journal_entries d @ [x]\<rparr>) i = Some e"
  by (simp add: get_journal_entry_def find_snoc)

lemma get_journal_entry_append_None:
  "get_journal_entry d i = None \<Longrightarrow>
     get_journal_entry (d\<lparr>journal_entries := journal_entries d @ [x]\<rparr>) i
       = (if entry_id x = i then Some x else None)"
  by (simp add: get_journal_entry_def find_snoc)

lemma entry_id_set_fields: "entry_id (set_fields upd e) = entry_id e"
  by (simp add: set_fields_def Let_def split: option.splits)

lemma status_set_fields: "status (set_fields upd e) = status e"
  by (simp add: set_fields_def Let_def split: option.splits)

lemma status_of_create:
  "lifecycle_step (status_of d i) (status_of (committed d (create_journal_entry d now entry)) i)"
proof (cases "create_journal_entry d now entry")
  case (Inl err)
  then show ?thesis by (simp add: committed_def lifecycle_step_def)
next
  case (Inr r)
  obtain d' e where r: "r = (d', e)" by (cases r)
  note facts = create_journal_entry_Inr [OF Inr [unfolded r]]
  have st: "status e = ''Draft''" by (subst facts(1)) simp
  show ?thesis
  proof (cases "get_journal_entry d i")
    case None
    then show ?thesis
      using Inr r st facts(2)
      by (simp add: committed_def status_of_def lifecycle_step_def get_journal_entry_append_None)
  next
    case (Some x)
    then show ?thesis
      using Inr r facts(2)
      by (simp add: committed_def status_of_def lifecycle_step_def get_journal_entry_append)
  qed
qed

lemma status_of_update:
  "status_of (committed d (update_journal_entry d now j upd)) i = status_of d i"
proof (cases "get_journal_entry d j")
  case None
  then show ?thesis by (simp add: update_journal_entry_def committed_def)
next
  case (Some e)
  note id = get_journal_entry_id [OF Some]
  have *: "status_of (store_entry x d) i = status_of d i"
    if "entry_id x = j" "status x = status e" for x
    using that Some id by (auto simp: status_of_def get_journal_entry_store)
  show ?thesis
    using Some id
    by (auto simp: update_journal_entry_def committed_def Let_def * entry_id_set_fields
          status_set_fields split: option.splits sum.splits)
qed

lemma status_of_post:
  "lifecycle_step (status_of d i) (status_of (committed d (post_journal_entry d now j)) i)"
proof (cases "get_journal_entry d j")
  case None
  then show ?thesis by (simp add: post_journal_entry_def committed_def lifecycle_step_def)
next
  case (Some e)
  note id = get_journal_entry_id [OF Some]
  show ?thesis
    using Some id
    by (auto simp: post_journal_entry_def committed_def lifecycle_step_def status_of_def
          get_journal_entry_store)
qed

lemma status_of_void:
  "lifecycle_step (status_of d i) (status_of (committed d (void_journal_entry d now j reason)) i)"
proof (cases "get_journal_entry d j")
  case None
  then show ?thesis by (simp add: void_journal_entry_def committed_def lifecycle_step_def)
next
  case (Some e)
  note id = get_journal_entry_id [OF Some]
  show ?thesis
    using Some id
    by (auto simp: void_journal_entry_def committed_def lifecycle_step_def status_of_def
          get_journal_entry_store)
qed

lemma status_of_reverse:
  "lifecycle_step (status_of d i)
     (status_of (committed d (create_reversing_entry d now j reverse_date)) i)"
proof (cases "get_journal_entry d j")
  case None
  then show ?thesis by (simp add: create_reversing_entry_def committed_def lifecycle_step_def)
next
  case (Some e)
  show ?thesis
  proof (cases "status e = ''Posted''")
    case True
    with Some show ?thesis
      using status_of_create by (simp add: create_reversing_entry_def Let_def)
  next
    case False
    with Some show ?thesis
      by (simp add: create_reversing_entry_def committed_def lifecycle_step_def)
  qed
qed

lemma journal_entries_store_account [simp]:
  "journal_entries (store_account a d) = journal_entries d"
  by (simp add: store_account_def)

lemma status_of_cong: "journal_entries d' = journal_entries d \<Longrightarrow> status_of d' i = status_of d i"
  by (simp add: status_of_def get_journal_entry_def)

lemma journal_entries_account_ops:
  "journal_entries (committed d (create_account d now acc)) = journal_entries d"
  "journal_entries (committed d (update_account d now j upd)) = journal_entries d"
  "journal_entries (committed d (delete_account d now j)) = journal_entries d"
  by (auto simp: committed_def create_account_def update_account_def delete_account_def Let_def
        split: option.splits sum.splits if_splits)

lemma lifecycle_step_refl: "lifecycle_step s s"
  by (simp add: lifecycle_step_def)

lemma status_of_exec: "lifecycle_step (status_of d i) (status_of (exec d x) i)"
proof (cases x)
  case (Create_entry now entry)
  then show ?thesis by (simp add: status_of_create)
next
  case (Update_entry now j upd)
  then show ?thesis by (simp add: status_of_update lifecycle_step_refl)
next
  case (Post_entry now j)
  then show ?thesis by (simp add: status_of_post)
next
  case (Void_entry now j reason)
  then show ?thesis by (simp add: status_of_void)
next
  case (Reverse_entry now j reverse_date)
  then show ?thesis by (simp add: status_of_reverse)
next
  case (Create_account now acc)
  then show ?thesis
    by (simp add: status_of_cong [OF journal_entries_account_ops(1)] lifecycle_step_refl)
next
  case (Update_account now j upd)
  then show ?thesis
    by (simp add: status_of_cong [OF journal_entries_account_ops(2)] lifecycle_step_refl)
next
  case (Delete_account now j)
  then show ?thesis
    by (simp add: status_of_cong [OF journal_entries_account_ops(3)] lifecycle_step_refl)
qed

lemma status_trace:
  "(status_of d i = None \<longrightarrow>
      remdups_adj (List.map_filter (\<lambda>s. status_of s i) (run d ops))
        \<in> {[], [''Draft''], [''Draft'', ''Posted''], [''Draft'', ''Void'']})
   \<and> (status_of d i = Some ''Draft'' \<longrightarrow>
      remdups_adj (''Draft'' # List.map_filter (\<lambda>s. status_of s i) (run d ops))
        \<in> {[''Draft''], [''Draft'', ''Posted''], [''Draft'', ''Void'']})
   \<and> (status_of d i = Some ''Posted'' \<longrightarrow>
      remdups_adj (''Posted'' # List.map_filter (\<lambda>s. status_of s i) (run d ops)) = [''Posted''])
   \<and> (status_of d i = Some ''Void'' \<longrightarrow>
      remdups_adj (''Void'' # List.map_filter (\<lambda>s. status_of s i) (run d ops)) = [''Void''])"
proof (induction ops arbitrary: d)
  case Nil
  then show ?case by (simp add: List.map_filter_simps)
next
  case (Cons x xs)
  let ?d = "exec d x"
  let ?M = "List.map_filter (\<lambda>s. status_of s i) (run ?d xs)"
  note IH = Cons.IH [of ?d]
  have step: "lifecycle_step (status_of d i) (status_of ?d i)" by (rule status_of_exec)
  have M: "List.map_filter (\<lambda>s. status_of s i) (run d (x # xs))
             = (case status_of ?d i of None \<Rightarrow> ?M | Some s \<Rightarrow> s # ?M)"
    by (simp add: List.map_filter_simps)
  show ?case
  proof (intro conjI impI)
    assume s: "status_of d i = None"
    with step have "status_of ?d i = None \<or> status_of ?d i = Some ''Draft''"
      by (auto simp: lifecycle_step_def)
    then show "remdups_adj (List.map_filter (\<lambda>s. status_of s i) (run d (x # xs)))
        \<in> {[], [''Draft''], [''Draft'', ''Posted''], [''Draft'', ''Void'']}"
      unfolding M using IH by auto
  next
    assume s: "status_of d i = Some ''Draft''"
    with step have "status_of ?d i = Some ''Draft'' \<or> status_of ?d i = Some ''Posted''
        \<or> status_of ?d i = Some ''Void''"
      by (auto simp: lifecycle_step_def)
    then show "remdups_adj (''Draft'' # List.map_filter (\<lambda>s. status_of s i) (run d (x # xs)))
        \<in> {[''Draft''], [''Draft'', ''Posted''], [''Draft'', ''Void'']}"
      unfolding M using IH by auto
  next
    assume s: "status_of d i = Some ''Posted''"
    with step have "status_of ?d i = Some ''Posted''"
      by (auto simp: lifecycle_step_def)
    then show "remdups_adj (''Posted'' # List.map_filter (\<lambda>s. status_of s i) (run d (x # xs)))
        = [''Posted'']"
      unfolding M using IH by auto
  next
    assume s: "status_of d i = Some ''Void''"
    with step have "status_of ?d i = Some ''Void''"
      by (auto simp: lifecycle_step_def)
    then show "remdups_adj (''Void'' # List.map_filter (\<lambda>s. status_of s i) (run d (x # xs)))
        = [''Void'']"
      unfolding M using IH by auto
  qed
qed

lemma terminal_status_kept:
  "status_of d i = Some ''Posted'' \<Longrightarrow> status_of (exec d x) i = Some ''Posted''"
  "status_of d i = Some ''Void'' \<Longrightarrow> status_of (exec d x) i = Some ''Void''"
  using status_of_exec [of d i x] by (auto simp: lifecycle_step_def)

lemma terminal_errors:
  "status_of d i = Some ''Posted'' \<Longrightarrow> post_journal_entry d now i = Inl (AlreadyPosted i)"
  "status_of d i = Some ''Posted'' \<Longrightarrow> void_journal_entry d now i reason = Inl (CannotVoidPosted i)"
  "status_of d i = Some ''Void'' \<Longrightarrow> post_journal_entry d now i = Inl (CannotPostVoid i)"
  "status_of d i = Some ''Void'' \<Longrightarrow> void_journal_entry d now i reason = Inl (AlreadyVoid i)"
  by (auto simp: status_of_def post_journal_entry_def void_journal_entry_def split: option.splits)

text \<open>
  Claim C2. For an entry that does not exist yet, the statuses observed after each
  operation of any sequence (create, update, post, void, reverse, and the account
  operations), with repetitions merged, are a prefix of \<open>Draft\<close> followed by
  \<open>Posted\<close> or by \<open>Void\<close>. A posted entry stays posted under every operation, so
  it never becomes void, and a void entry stays void. Posting a posted entry fails with
  \<open>AlreadyPosted\<close>, voiding it with \<open>CannotVoidPosted\<close>; posting a void entry fails
  with \<open>CannotPostVoid\<close>, voiding it with \<open>AlreadyVoid\<close>.
\<close>

theorem journal_entry_lifecycle:
  "(status_of d i = None \<longrightarrow>
      status_history i d ops \<in> {[], [''Draft''], [''Draft'', ''Posted''], [''Draft'', ''Void'']})
   \<and> (status_of d i = Some ''Posted'' \<longrightarrow>
        status_of (exec d x) i = Some ''Posted''
      \<and> post_journal_entry d now i = Inl (AlreadyPosted i)
      \<and> void_journal_entry d now i reason = Inl (CannotVoidPosted i))
   \<and> (status_of d i = Some ''Void'' \<longrightarrow>
        status_of (exec d x) i = Some ''Void''
      \<and> post_journal_entry d now i = Inl (CannotPostVoid i)
      \<and> void_journal_entry d now i reason = Inl (AlreadyVoid i))"
  using status_trace [of d i ops] terminal_status_kept terminal_errors
  unfolding status_history_def by blast

theorem journal_entry_lifecycle_witness:
  "status_of example_accounts_db 1 = None
   \<and> status_history 1 example_accounts_db
        [Create_entry example_now example_sale, Post_entry example_now 1,
         Void_entry example_now 1 ''entered twice'']
        \<in> {[], [''Draft''], [''Draft'', ''Posted''], [''Draft'', ''Void'']}
   \<and> status_of example_posted_db 1 = Some ''Posted''
   \<and> status_of (exec example_posted_db (Void_entry example_now 1 ''entered twice'')) 1
        = Some ''Posted''
   \<and> post_journal_entry example_posted_db example_now 1 = Inl (AlreadyPosted 1)
   \<and> void_journal_entry example_posted_db example_now 1 ''entered twice''
        = Inl (CannotVoidPosted 1)
   \<and> status_of example_void_db 1 = Some ''Void''
   \<and> status_of (exec example_void_db (Post_entry example_now 1)) 1 = Some ''Void''
   \<and> post_journal_entry example_void_db example_now 1 = Inl (CannotPostVoid 1)
   \<and> void_journal_entry example_void_db example_now 1 ''entered twice'' = Inl (AlreadyVoid 1)"
proof -
  have h1: "status_of example_accounts_db 1 = None" by code_simp
  have h2: "status_of example_posted_db 1 = Some ''Posted''" by code_simp
  have h3: "status_of example_void_db 1 = Some ''Void''" by code_simp
  note a = journal_entry_lifecycle [of example_accounts_db 1
      "[Create_entry example_now example_sale, Post_entry example_now 1,
        Void_entry example_now 1 ''entered twice'']"]
  note b = journal_entry_lifecycle [of example_posted_db 1 _
      "Void_entry example_now 1 ''entered twice''" example_now "''entered twice''"]
  note c = journal_entry_lifecycle [of example_void_db 1 _
      "Post_entry example_now 1" example_now "''entered twice''"]
  from a h1 have "status_history 1 example_accounts_db
        [Create_entry example_now example_sale, Post_entry example_now 1,
         Void_entry example_now 1 ''entered twice'']
        \<in> {[], [''Draft''], [''Draft'', ''Posted''], [''Draft'', ''Void'']}"
    by blast
  moreover from b h2 have
    "status_of (exec example_posted_db (Void_entry example_now 1 ''entered twice'')) 1
        = Some ''Posted''
     \<and> post_journal_entry example_posted_db example_now 1 = Inl (AlreadyPosted 1)
     \<and> void_journal_entry example_posted_db example_now 1 ''entered twice''
        = Inl (CannotVoidPosted 1)"
    by blast
  moreover from c h3 have
    "status_of (exec example_void_db (Post_entry example_now 1)) 1 = Some ''Void''
     \<and> post_journal_entry example_void_db example_now 1 = Inl (CannotPostVoid 1)
     \<and> void_journal_entry example_void_db example_now 1 ''entered twice'' = Inl (AlreadyVoid 1)"
    by blast
  ultimately show ?thesis using h1 h2 h3 by blast
qed

lemma get_journal_entry_stored:
  "get_journal_entry d i = Some e \<Longrightarrow> entry_id e' = i \<Longrightarrow>
     get_journal_entry (store_entry e' d) i = Some e'"
  by (simp add: get_journal_entry_store)

text \<open>
  Claim C3, as amended. \<open>post_journal_entry\<close> on an existing entry of status
  \<open>Draft\<close> fails with the unbalanced-entry error when the stored \<open>is_balanced\<close> is
  false. Otherwise it succeeds, and the stored entry is the old one with status
  \<open>Posted\<close> and with \<open>posted_at\<close> and \<open>updated_at\<close> set to the current time;
  \<open>posted_by\<close> keeps the value it had, since the operation takes no actor.
\<close>

theorem post_journal_entry_draft:
  "get_journal_entry d i = Some e \<and> status e = ''Draft'' \<longrightarrow>
     (\<not> is_balanced e \<longrightarrow> post_journal_entry d now i = Inl (PostUnbalanced i))
   \<and> (is_balanced e \<longrightarrow>
        post_journal_entry d now i =
          Inr (store_entry (e\<lparr>status := ''Posted'', posted_at := Some now, updated_at := now\<rparr>) d, True))
   \<and> (\<forall>d' r. post_journal_entry d now i = Inr (d', r) \<longrightarrow>
        (\<exists>e'. get_journal_entry d' i = Some e'
            \<and> e' = e\<lparr>status := ''Posted'', posted_at := Some now, updated_at := now\<rparr>
            \<and> status e' = ''Posted'' \<and> posted_at e' = Some now \<and> posted_by e' = posted_by e))"
proof (intro impI, elim conjE)
  assume e: "get_journal_entry d i = Some e" and st: "status e = ''Draft''"
  note id = get_journal_entry_id [OF e]
  have stored: "get_journal_entry
      (store_entry (e\<lparr>status := ''Posted'', posted_at := Some now, updated_at := now\<rparr>) d) i
      = Some (e\<lparr>status := ''Posted'', posted_at := Some now, updated_at := now\<rparr>)"
    by (rule get_journal_entry_stored [OF e]) (simp add: id)
  show "(\<not> is_balanced e \<longrightarrow> post_journal_entry d now i = Inl (PostUnbalanced i))
   \<and> (is_balanced e \<longrightarrow>
        post_journal_entry d now i =
          Inr (store_entry (e\<lparr>status := ''Posted'', posted_at := Some now, updated_at := now\<rparr>) d, True))
   \<and> (\<forall>d' r. post_journal_entry d now i = Inr (d', r) \<longrightarrow>
        (\<exists>e'. get_journal_entry d' i = Some e'
            \<and> e' = e\<lparr>status := ''Posted'', posted_at := Some now, updated_at := now\<rparr>
            \<and> status e' = ''Posted'' \<and> posted_at e' = Some now \<and> posted_by e' = posted_by e))"
    using e st stored by (auto simp: post_journal_entry_def)
qed

text \<open>
  Posting the draft of the example succeeds and stamps \<open>posted_at\<close>, and \<open>posted_by\<close>
  is still empty afterwards.
\<close>

theorem post_journal_entry_posted_by_counterexample:
  "map_option status (get_journal_entry example_draft_db 1) = Some ''Draft''
   \<and> post_journal_entry example_draft_db example_now 1 = Inr (example_posted_db, True)
   \<and> map_option status (get_journal_entry example_posted_db 1) = Some ''Posted''
   \<and> map_option posted_at (get_journal_entry example_posted_db 1) = Some (Some example_now)
   \<and> map_option posted_by (get_journal_entry example_posted_db 1) = Some None"
  by code_simp


lemma example_draft_db_entry: "get_journal_entry example_draft_db 1 = Some example_draft_row"
  by code_simp

lemma example_unbalanced_db_entry: "get_journal_entry example_unbalanced_db 1 = Some example_unbalanced_row"
  by code_simp

theorem post_journal_entry_draft_witness:
  "post_journal_entry example_draft_db example_now 1 = Inr (example_posted_db, True)
   \<and> post_journal_entry example_unbalanced_db example_now 1 = Inl (PostUnbalanced 1)"
proof -
  have e: "status example_draft_row = ''Draft''" "is_balanced example_draft_row"
    by (simp_all add: example_draft_row_def)
  have u: "status example_unbalanced_row = ''Draft''" "\<not> is_balanced example_unbalanced_row"
    by (simp_all add: example_unbalanced_row_def)
  have "post_journal_entry example_draft_db example_now 1 =
      Inr (store_entry (example_draft_row\<lparr>status := ''Posted'', posted_at := Some example_now,
                         updated_at := example_now\<rparr>) example_draft_db, True)"
    using post_journal_entry_draft [of example_draft_db 1 example_draft_row example_now]
      example_draft_db_entry e by blast
  moreover from this have "example_posted_db =
      store_entry (example_draft_row\<lparr>status := ''Posted'', posted_at := Some example_now,
                     updated_at := example_now\<rparr>) example_draft_db"
    by (simp add: example_posted_db_def committed_def)
  moreover have "post_journal_entry example_unbalanced_db example_now 1 = Inl (PostUnbalanced 1)"
    using post_journal_entry_draft [of example_unbalanced_db 1 example_unbalanced_row example_now]
      example_unbalanced_db_entry u by blast
  ultimately show ?thesis by simp
qed

section \<open>Reversing an entry\<close>

lemma example_posted_db_entry: "get_journal_entry example_posted_db 1 = Some example_posted_row"
  by code_simp

text \<open>
  The example entry is posted and the account of its second line has been deactivated
  since: the reversal is refused for that account, and no entry is created.
\<close>

theorem create_reversing_entry_inactive_counterexample:
  "map_option status (get_journal_entry example_closed_db 1) = Some ''Posted''
   \<and> create_reversing_entry example_closed_db example_now 1 738917 = Inl (InvalidAccount 2)"
  by code_simp

lemma reversing_line_fields [simp]:
  "debit_amount (reversing_line e l) = credit_amount l"
  "credit_amount (reversing_line e l) = debit_amount l"
  "account_id (reversing_line e l) = account_id l"
  "line_number (reversing_line e l) = line_number l"
  by (simp_all add: reversing_line_def)

text \<open>
  Claim C4, as amended. For an existing source entry, \<open>create_reversing_entry\<close> fails
  with \<open>NotPosted\<close> when the status is not \<open>Posted\<close>. When it is \<open>Posted\<close> the call
  is the call of \<open>create_journal_entry\<close> on the reversing request and fails as that one
  does; it succeeds when the swapped totals agree, the table is numbered and every account
  of the original lines is still active. Whenever it succeeds, the new entry is a draft
  dated \<open>reverse_date\<close>, of type \<open>System\<close>, with reference \<open>REV-\<close> followed by the
  original entry number, and has one line per original line, in order, with
  \<open>debit_amount\<close> and \<open>credit_amount\<close> exchanged and the same account and line number;
  the new row is appended, the accounts are untouched and the original entry is unchanged.
\<close>

theorem create_reversing_entry_swaps:
  "get_journal_entry d i = Some e \<longrightarrow>
     (status e \<noteq> ''Posted'' \<longrightarrow> create_reversing_entry d now i reverse_date = Inl (NotPosted i))
   \<and> (status e = ''Posted'' \<longrightarrow>
        create_reversing_entry d now i reverse_date =
          create_journal_entry d now
            \<lparr> new_entry_date = reverse_date,
              new_reference = Some (''REV-'' @ entry_number e),
              new_description = ''Reversing entry for '' @ entry_number e,
              new_entry_type = ''System'',
              new_journal_lines = map (reversing_line e) (journal_lines e) \<rparr>)
   \<and> (status e = ''Posted''
        \<and> sum_list (map credit_amount (journal_lines e)) = sum_list (map debit_amount (journal_lines e))
        \<and> numbered [] (journal_entries d)
        \<and> (\<forall>l \<in> set (journal_lines e).
              \<exists>a \<in> set (chart_of_accounts d). acct_id a = account_id l \<and> is_active a) \<longrightarrow>
        (\<exists>d' r. create_reversing_entry d now i reverse_date = Inr (d', r)))
   \<and> (\<forall>d' r. create_reversing_entry d now i reverse_date = Inr (d', r) \<longrightarrow>
        status e = ''Posted''
      \<and> status r = ''Draft'' \<and> entry_date r = reverse_date \<and> entry_type r = ''System''
      \<and> reference r = Some (''REV-'' @ entry_number e)
      \<and> length (journal_lines r) = length (journal_lines e)
      \<and> (\<forall>k < length (journal_lines e).
            debit_amount (journal_lines r ! k) = credit_amount (journal_lines e ! k)
          \<and> credit_amount (journal_lines r ! k) = debit_amount (journal_lines e ! k)
          \<and> account_id (journal_lines r ! k) = account_id (journal_lines e ! k)
          \<and> line_number (journal_lines r ! k) = line_number (journal_lines e ! k))
      \<and> journal_entries d' = journal_entries d @ [r]
      \<and> chart_of_accounts d' = chart_of_accounts d
      \<and> get_journal_entry d' i = Some e)"
  (is "_ \<longrightarrow> ?notposted \<and> ?delegates \<and> ?succeeds \<and> ?result")
proof
  assume e: "get_journal_entry d i = Some e"
  let ?req = "\<lparr> new_entry_date = reverse_date,
              new_reference = Some (''REV-'' @ entry_number e),
              new_description = ''Reversing entry for '' @ entry_number e,
              new_entry_type = ''System'',
              new_journal_lines = map (reversing_line e) (journal_lines e) \<rparr>"
  have np: ?notposted using e by (simp add: create_reversing_entry_def)
  have dg: ?delegates using e by (simp add: create_reversing_entry_def Let_def)
  have sc: ?succeeds
  proof (intro impI, elim conjE)
    assume st: "status e = ''Posted''"
      and bal: "sum_list (map credit_amount (journal_lines e)) = sum_list (map debit_amount (journal_lines e))"
      and num: "numbered [] (journal_entries d)"
      and ok: "\<forall>l \<in> set (journal_lines e).
              \<exists>a \<in> set (chart_of_accounts d). acct_id a = account_id l \<and> is_active a"
    have "validate_lines d (new_journal_lines ?req) = Inr ()"
      using ok by (simp add: validate_lines_Inr find_active_account_None)
    moreover have "sum_list (map debit_amount (new_journal_lines ?req))
        = sum_list (map credit_amount (new_journal_lines ?req))"
      using bal by (simp add: comp_def)
    ultimately have "\<exists>d' r. create_journal_entry d now ?req = Inr (d', r)"
      using generate_entry_number_fresh [OF num, of now]
      by (intro create_journal_entry_succeeds)
    with dg st show "\<exists>d' r. create_reversing_entry d now i reverse_date = Inr (d', r)"
      by simp
  qed
  have rs: ?result
  proof (intro allI impI)
    fix d' r
    assume r: "create_reversing_entry d now i reverse_date = Inr (d', r)"
    have st: "status e = ''Posted''"
      using r e by (auto simp: create_reversing_entry_def split: if_splits)
    with dg r have c: "create_journal_entry d now ?req = Inr (d', r)" by simp
    note facts = create_journal_entry_Inr [OF c]
    have lines: "journal_lines r = map (reversing_line e) (journal_lines e)"
      by (subst facts(1)) simp
    have "status r = ''Draft''" "entry_date r = reverse_date" "entry_type r = ''System''"
      "reference r = Some (''REV-'' @ entry_number e)"
      by (subst facts(1), simp)+
    moreover have "journal_entries d' = journal_entries d @ [r]"
      "chart_of_accounts d' = chart_of_accounts d"
      by (subst facts(2), simp)+
    moreover have "get_journal_entry d' i = Some e"
      unfolding facts(2) using e by (rule get_journal_entry_append)
    ultimately show "status e = ''Posted''
      \<and> status r = ''Draft'' \<and> entry_date r = reverse_date \<and> entry_type r = ''System''
      \<and> reference r = Some (''REV-'' @ entry_number e)
      \<and> length (journal_lines r) = length (journal_lines e)
      \<and> (\<forall>k < length (journal_lines e).
            debit_amount (journal_lines r ! k) = credit_amount (journal_lines e ! k)
          \<and> credit_amount (journal_lines r ! k) = debit_amount (journal_lines e ! k)
          \<and> account_id (journal_lines r ! k) = account_id (journal_lines e ! k)
          \<and> line_number (journal_lines r ! k) = line_number (journal_lines e ! k))
      \<and> journal_entries d' = journal_entries d @ [r]
      \<and> chart_of_accounts d' = chart_of_accounts d
      \<and> get_journal_entry d' i = Some e"
      using st lines by simp
  qed
  from np dg sc rs show "?notposted \<and> ?delegates \<and> ?succeeds \<and> ?result" by blast
qed

lemma example_posted_db_ready:
  "numbered [] (journal_entries example_posted_db)"
  "\<forall>l \<in> set (journal_lines example_posted_row).
      \<exists>a \<in> set (chart_of_accounts example_posted_db). acct_id a = account_id l \<and> is_active a"
  by code_simp+

theorem create_reversing_entry_swaps_witness:
  "create_reversing_entry example_draft_db example_now 1 738917 = Inl (NotPosted 1)
   \<and> (\<exists>d' r. create_reversing_entry example_posted_db example_now 1 738917 = Inr (d', r)
        \<and> status r = ''Draft'' \<and> entry_date r = 738917 \<and> entry_type r = ''System''
        \<and> reference r = Some ''REV-JE-2024-00001''
        \<and> length (journal_lines r) = 2
        \<and> debit_amount (journal_lines r ! 0) = 0 \<and> credit_amount (journal_lines r ! 0) = 15000
        \<and> debit_amount (journal_lines r ! 1) = 15000 \<and> credit_amount (journal_lines r ! 1) = 0
        \<and> get_journal_entry d' 1 = Some example_posted_row)"
proof
  have "status example_draft_row \<noteq> ''Posted''" by (simp add: example_draft_row_def)
  with create_reversing_entry_swaps [of example_draft_db 1 example_draft_row example_now 738917]
    example_draft_db_entry
  show "create_reversing_entry example_draft_db example_now 1 738917 = Inl (NotPosted 1)"
    by blast
next
  note inst = create_reversing_entry_swaps [of example_posted_db 1 example_posted_row example_now 738917]
  have st: "status example_posted_row = ''Posted''"
    by (simp add: example_posted_row_def)
  have bal: "sum_list (map credit_amount (journal_lines example_posted_row))
      = sum_list (map debit_amount (journal_lines example_posted_row))"
    by (simp add: example_posted_row_def example_draft_row_def example_line_def)
  from inst example_posted_db_entry st bal example_posted_db_ready
  obtain d' r where r: "create_reversing_entry example_posted_db example_now 1 738917 = Inr (d', r)"
    by blast
  with inst example_posted_db_entry have res:
    "status r = ''Draft''" "entry_date r = 738917" "entry_type r = ''System''"
    "reference r = Some (''REV-'' @ entry_number example_posted_row)"
    "length (journal_lines r) = length (journal_lines example_posted_row)"
    "\<forall>k < length (journal_lines example_posted_row).
            debit_amount (journal_lines r ! k) = credit_amount (journal_lines example_posted_row ! k)
          \<and> credit_amount (journal_lines r ! k) = debit_amount (journal_lines example_posted_row ! k)
          \<and> account_id (journal_lines r ! k) = account_id (journal_lines example_posted_row ! k)
          \<and> line_number (journal_lines r ! k) = line_number (journal_lines example_posted_row ! k)"
    "get_journal_entry d' 1 = Some example_posted_row"
    by blast+
  have lines: "journal_lines example_posted_row = [example_line 1 1 15000 0, example_line 2 2 0 15000]"
    by (simp add: example_posted_row_def example_draft_row_def)
  from res(6) have "debit_amount (journal_lines r ! 0) = 0 \<and> credit_amount (journal_lines r ! 0) = 15000
        \<and> debit_amount (journal_lines r ! 1) = 15000 \<and> credit_amount (journal_lines r ! 1) = 0"
    unfolding lines by (simp add: example_line_def)
  moreover have "reference r = Some ''REV-JE-2024-00001''"
    using res(4) by (simp add: example_posted_row_def example_draft_row_def)
  moreover have "length (journal_lines r) = 2" using res(5) lines by simp
  ultimately show "\<exists>d' r. create_reversing_entry example_posted_db example_now 1 738917 = Inr (d', r)
        \<and> status r = ''Draft'' \<and> entry_date r = 738917 \<and> entry_type r = ''System''
        \<and> reference r = Some ''REV-JE-2024-00001''
        \<and> length (journal_lines r) = 2
        \<and> debit_amount (journal_lines r ! 0) = 0 \<and> credit_amount (journal_lines r ! 0) = 15000
        \<and> debit_amount (journal_lines r ! 1) = 15000 \<and> credit_amount (journal_lines r ! 1) = 0
        \<and> get_journal_entry d' 1 = Some example_posted_row"
    using r res(1-3,7) by blast
qed

section \<open>Balances, account updates and void reasons\<close>

text \<open>
  Claim C5 fails on the code. In the example the entry is posted and debits account 1 by
  150.00, so the balance the specification describes is 150.00 of debits, no credits and a
  net of 150.00 for the debit-normal account; \<open>get_account_balance\<close> returns zero for
  all three amounts.
\<close>

theorem get_account_balance_placeholder:
  "map_option status (get_journal_entry example_posted_db 1) = Some ''Posted''
   \<and> get_account_balance example_posted_db example_now 1 None =
       Inr \<lparr> bal_account_id = 1, bal_account_code = ''1000'', bal_account_name = ''Cash'',
             bal_as_of_date = example_now, debit_balance = 0, credit_balance = 0,
             net_balance = 0 \<rparr>
   \<and> spec_account_balance example_posted_db 1 None = Some (15000, 0, 15000)"
  by code_simp

text \<open>
  Claim C6 fails on the code. \<open>update_account\<close> makes account 1 its own parent and
  succeeds; with account 2 a child of account 1, it makes account 1 a child of account 2
  and succeeds, which leaves the two accounts on a cycle.
\<close>

theorem update_account_accepts_cycle:
  "update_account example_accounts_db example_now 1 (example_set_parent 1)
     = Inr (example_self_parent_db, get_account example_self_parent_db 1)
   \<and> map_option acct_id (get_account example_self_parent_db 1) = Some 1
   \<and> map_option parent_account_id (get_account example_self_parent_db 1) = Some (Some 1)
   \<and> map_option parent_account_id (get_account example_child_db 2) = Some (Some 1)
   \<and> update_account example_child_db example_now 1 (example_set_parent 2)
     = Inr (example_cycle_db, get_account example_cycle_db 1)
   \<and> map_option parent_account_id (get_account example_cycle_db 1) = Some (Some 2)
   \<and> map_option parent_account_id (get_account example_cycle_db 2) = Some (Some 1)"
  by code_simp

text \<open>
  Claim C8 fails on the code in its last part. Voiding the draft of the example succeeds,
  and the database after it is the same whatever reason is given: the stored row is the
  draft row with status \<open>Void\<close> and nothing else changed.
\<close>

theorem void_journal_entry_drops_reason:
  "void_journal_entry example_draft_db example_now 1 ''entered twice''
     = Inr (example_void_db, True)
   \<and> void_journal_entry example_draft_db example_now 1 ''a different reason''
     = Inr (example_void_db, True)
   \<and> get_journal_entry example_void_db 1 = Some (example_draft_row\<lparr>status := ''Void''\<rparr>)"
  by code_simp

lemma update_account_never_raises: "update_account d now i upd \<noteq> Inl err"
  by (simp add: update_account_def Let_def split: option.splits)

lemma void_journal_entry_cases:
  "get_journal_entry d i = None \<Longrightarrow> void_journal_entry d now i reason = Inl (NotFound i)"
  "get_journal_entry d i = Some e \<Longrightarrow> status e = ''Posted'' \<Longrightarrow>
     void_journal_entry d now i reason = Inl (CannotVoidPosted i)"
  "get_journal_entry d i = Some e \<Longrightarrow> status e = ''Void'' \<Longrightarrow>
     void_journal_entry d now i reason = Inl (AlreadyVoid i)"
  "get_journal_entry d i = Some e \<Longrightarrow> status e \<noteq> ''Posted'' \<Longrightarrow> status e \<noteq> ''Void'' \<Longrightarrow>
     void_journal_entry d now i reason =
       Inr (store_entry (e\<lparr>status := ''Void'', updated_at := now\<rparr>) d, True)"
  by (simp_all add: void_journal_entry_def)

lemma void_journal_entry_ignores_reason:
  "void_journal_entry d now i reason = void_journal_entry d now i reason'"
  by (simp add: void_journal_entry_def)

lemma get_account_balance_zero:
  "get_account_balance d now i as_of = Inr b \<Longrightarrow>
     debit_balance b = 0 \<and> credit_balance b = 0 \<and> net_balance b = 0"
  by (auto simp: get_account_balance_def split: option.splits)

section \<open>Numbering of the entries\<close>
















lemma entries_ok_empty: "entries_ok empty_db"
  by (simp add: entries_ok_def empty_db_def)










section \<open>The aging report\<close>

lemma aging_loop_buckets:
  "fst (aging_loop as_of ivs B T) b =
     \<lparr> amount = amount (B b)
          + sum_list (map (\<lambda>iv. total_amount iv - paid_amount iv)
              (filter (\<lambda>iv. bucket_of (as_of - due_date iv) = b) ivs)),
       count = count (B b) + length (filter (\<lambda>iv. bucket_of (as_of - due_date iv) = b) ivs) \<rparr>"
proof (induction ivs arbitrary: B T)
  case Nil
  then show ?case by simp
next
  case (Cons iv ivs)
  show ?case
    by (simp add: Let_def Cons.IH)
qed

lemma aging_loop_total:
  "snd (aging_loop as_of ivs B T) = T + sum_list (map (\<lambda>iv. total_amount iv - paid_amount iv) ivs)"
  by (induction ivs arbitrary: B T) (simp_all add: Let_def)

lemma set_unpaid_invoices:
  "iv \<in> set (unpaid_invoices table as_of cust) \<longleftrightarrow>
     iv \<in> set table \<and> invoice_status iv = ''Sent'' \<and> due_date iv \<le> as_of
     \<and> paid_amount iv < total_amount iv
     \<and> (cust = None \<or> cust = Some 0 \<or> cust = Some (customer_id iv))"
  by (auto simp: unpaid_invoices_def Let_def split: option.splits)

lemma bucket_of_cases:
  "(bucket_of n = Current \<longleftrightarrow> n \<le> 0)"
  "(bucket_of n = Days_1_30 \<longleftrightarrow> 1 \<le> n \<and> n \<le> 30)"
  "(bucket_of n = Days_31_60 \<longleftrightarrow> 31 \<le> n \<and> n \<le> 60)"
  "(bucket_of n = Days_61_90 \<longleftrightarrow> 61 \<le> n \<and> n \<le> 90)"
  "(bucket_of n = Over_90_days \<longleftrightarrow> 91 \<le> n)"
  by (auto simp: bucket_of_def)

text \<open>
  Claim C9, as amended. The report is computed over the invoices of status \<open>Sent\<close> with
  \<open>due_date \<le> as_of_date\<close> and \<open>paid_amount < total_amount\<close> (of the given customer
  when one is given). Each of them is put into the bucket of
  \<open>days_overdue = as_of_date - due_date\<close>: \<open>current\<close> for at most 0, then 1 to 30,
  31 to 60, 61 to 90, and more than 90 days. For every bucket the report holds the sum of
  \<open>total_amount - paid_amount\<close> and the number of the invoices in it, and it holds the
  total outstanding amount and the number of invoices. Among the reported invoices the
  \<open>current\<close> bucket holds exactly those due on \<open>as_of_date\<close>; an invoice not yet due is
  not reported.
\<close>

theorem generate_aging_report_buckets:
  "aging_buckets (generate_aging_report table as_of cust) b =
     \<lparr> amount = sum_list (map (\<lambda>iv. total_amount iv - paid_amount iv)
                  (filter (\<lambda>iv. bucket_of (as_of - due_date iv) = b)
                     (unpaid_invoices table as_of cust))),
       count = length (filter (\<lambda>iv. bucket_of (as_of - due_date iv) = b)
                  (unpaid_invoices table as_of cust)) \<rparr>
   \<and> total_outstanding (generate_aging_report table as_of cust) =
       sum_list (map (\<lambda>iv. total_amount iv - paid_amount iv) (unpaid_invoices table as_of cust))
   \<and> total_invoices (generate_aging_report table as_of cust) =
       length (unpaid_invoices table as_of cust)
   \<and> (\<forall>iv. iv \<in> set (unpaid_invoices table as_of cust) \<longleftrightarrow>
          iv \<in> set table \<and> invoice_status iv = ''Sent'' \<and> due_date iv \<le> as_of
          \<and> paid_amount iv < total_amount iv
          \<and> (cust = None \<or> cust = Some 0 \<or> cust = Some (customer_id iv)))
   \<and> (\<forall>iv \<in> set (unpaid_invoices table as_of cust).
          bucket_of (as_of - due_date iv) = Current \<longleftrightarrow> due_date iv = as_of)
   \<and> (\<forall>n. (bucket_of n = Current \<longleftrightarrow> n \<le> 0)
          \<and> (bucket_of n = Days_1_30 \<longleftrightarrow> 1 \<le> n \<and> n \<le> 30)
          \<and> (bucket_of n = Days_31_60 \<longleftrightarrow> 31 \<le> n \<and> n \<le> 60)
          \<and> (bucket_of n = Days_61_90 \<longleftrightarrow> 61 \<le> n \<and> n \<le> 90)
          \<and> (bucket_of n = Over_90_days \<longleftrightarrow> 91 \<le> n))"
  (is "?buckets \<and> ?total \<and> ?number \<and> ?query \<and> ?current \<and> ?classes")
proof (intro conjI)
  obtain B T where lp: "aging_loop as_of (unpaid_invoices table as_of cust)
      (\<lambda>b. \<lparr>amount = 0, count = 0\<rparr>) 0 = (B, T)"
    by (cases "aging_loop as_of (unpaid_invoices table as_of cust) (\<lambda>b. \<lparr>amount = 0, count = 0\<rparr>) 0")
  have rep: "aging_buckets (generate_aging_report table as_of cust) = B"
    "total_outstanding (generate_aging_report table as_of cust) = T"
    "total_invoices (generate_aging_report table as_of cust) = length (unpaid_invoices table as_of cust)"
    by (simp_all add: generate_aging_report_def Let_def lp)
  from aging_loop_buckets [of as_of "unpaid_invoices table as_of cust" "\<lambda>b. \<lparr>amount = 0, count = 0\<rparr>" 0 b]
  show ?buckets unfolding rep(1) lp by simp
  from aging_loop_total [of as_of "unpaid_invoices table as_of cust" "\<lambda>b. \<lparr>amount = 0, count = 0\<rparr>" 0]
  show ?total unfolding rep(2) lp by simp
  show ?number by (rule rep(3))
  show ?query by (intro allI) (rule set_unpaid_invoices)
  show ?current
  proof
    fix iv assume "iv \<in> set (unpaid_invoices table as_of cust)"
    then have "due_date iv \<le> as_of" by (simp add: set_unpaid_invoices)
    then show "bucket_of (as_of - due_date iv) = Current \<longleftrightarrow> due_date iv = as_of"
      by (auto simp: bucket_of_cases(1))
  qed
  show ?classes using bucket_of_cases by blast
qed

text \<open>
  An open invoice due 31 days after the date of the report: it is in no bucket, and the
  \<open>current\<close> bucket is empty.
\<close>

theorem generate_aging_report_not_due_counterexample:
  "invoice_status (example_invoice 3 738917 70000 0) = ''Sent''
   \<and> paid_amount (example_invoice 3 738917 70000 0) < total_amount (example_invoice 3 738917 70000 0)
   \<and> 738886 - due_date (example_invoice 3 738917 70000 0) < 0
   \<and> count (aging_buckets (generate_aging_report [example_invoice 3 738917 70000 0] 738886 None) Current) = 0
   \<and> amount (aging_buckets (generate_aging_report [example_invoice 3 738917 70000 0] 738886 None) Current) = 0
   \<and> total_invoices (generate_aging_report [example_invoice 3 738917 70000 0] 738886 None) = 0"
  by (simp add: example_invoice_def generate_aging_report_def unpaid_invoices_def Let_def)

theorem generate_aging_report_buckets_witness:
  "aging_buckets (generate_aging_report example_invoices 738886 None) Current
      = \<lparr>amount = 50000, count = 1\<rparr>
   \<and> aging_buckets (generate_aging_report example_invoices 738886 None) Days_31_60
      = \<lparr>amount = 20000, count = 1\<rparr>
   \<and> total_invoices (generate_aging_report example_invoices 738886 None) = 2
   \<and> example_invoice 3 738917 70000 0 \<notin> set (unpaid_invoices example_invoices 738886 None)
   \<and> example_invoice 1 738886 50000 0 \<in> set (unpaid_invoices example_invoices 738886 None)
   \<and> bucket_of (738886 - due_date (example_invoice 1 738886 50000 0)) = Current"
proof -
  have q: "unpaid_invoices example_invoices 738886 None
      = [example_invoice 1 738886 50000 0, example_invoice 2 738841 30000 10000]"
    by (simp add: unpaid_invoices_def example_invoices_def example_invoice_def Let_def)
  note r = generate_aging_report_buckets [of example_invoices 738886 None]
  have m: "example_invoice 1 738886 50000 0 \<in> set (unpaid_invoices example_invoices 738886 None)"
    using r [of Current] by (simp add: example_invoices_def example_invoice_def)
  have "aging_buckets (generate_aging_report example_invoices 738886 None) Current
      = \<lparr>amount = 50000, count = 1\<rparr>"
    using r [of Current] unfolding q by (simp add: example_invoice_def bucket_of_def)
  moreover have "aging_buckets (generate_aging_report example_invoices 738886 None) Days_31_60
      = \<lparr>amount = 20000, count = 1\<rparr>"
    using r [of Days_31_60] unfolding q by (simp add: example_invoice_def bucket_of_def)
  moreover have "total_invoices (generate_aging_report example_invoices 738886 None) = 2"
    using r [of Current] unfolding q by simp
  moreover have "example_invoice 3 738917 70000 0 \<notin> set (unpaid_invoices example_invoices 738886 None)"
    using r [of Current] by (simp add: example_invoice_def)
  moreover have "bucket_of (738886 - due_date (example_invoice 1 738886 50000 0)) = Current"
    using r [of Current] m by (simp add: example_invoice_def)
  ultimately show ?thesis using m by blast
qed

section \<open>Updating an entry\<close>








end
